theory Spec2Isabelle
  imports Main
begin

section \<open>JavaScript strings\<close>

text \<open>
  A JavaScript string is modelled as a \<^typ>\<open>string\<close>, one \<^typ>\<open>char\<close> per code unit, for
  code units below 256. \<open>String.prototype.trim\<close> strips white space and line terminators
  from both ends; in that range these are TAB, LF, VT, FF, CR, space and the no-break space.
\<close>

definition isWhiteSpace :: "char \<Rightarrow> bool" where
  "isWhiteSpace c =
     (c = CHR 0x09 \<or> c = CHR 0x0A \<or> c = CHR 0x0B \<or> c = CHR 0x0C \<or> c = CHR 0x0D
      \<or> c = CHR '' '' \<or> c = CHR 0xA0)"

definition trim :: "string \<Rightarrow> string" where
  "trim s = rev (dropWhile isWhiteSpace (rev (dropWhile isWhiteSpace s)))"

section \<open>Variable utilities (variableUtils)\<close>

subsection \<open>extractVariables\<close>







subsection \<open>replaceVariables\<close>

text \<open>
  \<open>new RegExp(`\\{\\{${variableName}\\}\\}`, 'g')\<close> splices the name into the pattern as it
  is. Where the name has no regular-expression syntax character, the pattern matches
  exactly the text \<open>{{variableName}}\<close>; the embedding of \<open>replaceVariables\<close> below covers
  these names, and the theorems about it assume \<open>literalName\<close> of every name.
\<close>

definition regexSyntaxChar :: "char \<Rightarrow> bool" where
  "regexSyntaxChar c =
     (c = CHR ''^'' \<or> c = CHR ''$'' \<or> c = CHR 0x5C \<or> c = CHR ''.'' \<or> c = CHR ''*''
      \<or> c = CHR ''+'' \<or> c = CHR ''?'' \<or> c = CHR ''('' \<or> c = CHR '')'' \<or> c = CHR ''[''
      \<or> c = CHR '']'' \<or> c = CHR ''{'' \<or> c = CHR ''}'' \<or> c = CHR ''|'')"

definition literalName :: "string \<Rightarrow> bool" where
  "literalName variableName = list_all (\<lambda>c. \<not> regexSyntaxChar c) variableName"

definition variablePattern :: "string \<Rightarrow> string" where
  "variablePattern variableName = ''{{'' @ variableName @ ''}}''"

text \<open>
  The replacement text of one match, for a pattern without capture groups
  (GetSubstitution of ECMAScript): \<open>$$\<close> is a dollar sign, \<open>$&\<close> the matched text, \<open>$`\<close> the
  text before the match (\<open>preceding\<close>) and \<open>$'\<close> the text after it (\<open>following\<close>); any
  other character, and a dollar sign before any other character, stands for itself.
\<close>

fun getSubstitution :: "string \<Rightarrow> string \<Rightarrow> string \<Rightarrow> string \<Rightarrow> string" where
  "getSubstitution matched preceding following (c # d # r) =
     (if c = CHR ''$'' then
        (if d = CHR ''$'' then CHR ''$'' # getSubstitution matched preceding following r
         else if d = CHR ''&'' then matched @ getSubstitution matched preceding following r
         else if d = CHR 0x60 then preceding @ getSubstitution matched preceding following r
         else if d = CHR 0x27 then following @ getSubstitution matched preceding following r
         else c # getSubstitution matched preceding following (d # r))
      else c # getSubstitution matched preceding following (d # r))"
| "getSubstitution matched preceding following r = r"

text \<open>
  \<open>result.replace(regex, value)\<close> with the global flag, for a literal pattern \<open>p\<close>: every
  match found scanning from the left is replaced, the scan resumes behind the match, and
  the text put in is not scanned again. \<open>preceding\<close> is the part of the string already passed.
\<close>

function replaceFrom :: "string \<Rightarrow> string \<Rightarrow> string \<Rightarrow> string \<Rightarrow> string" where
  "replaceFrom p v preceding [] = []"
| "replaceFrom p v preceding (c # cs) =
     (if p \<noteq> [] \<and> take (length p) (c # cs) = p
      then getSubstitution p preceding (drop (length p) (c # cs)) v
             @ replaceFrom p v (preceding @ p) (drop (length p) (c # cs))
      else c # replaceFrom p v (preceding @ [c]) cs)"
  by pat_completeness auto
termination
  by (relation "measure (\<lambda>(p, v, preceding, s). length s)") auto

definition replace :: "string \<Rightarrow> string \<Rightarrow> string \<Rightarrow> string" where
  "replace result p v = replaceFrom p v [] result"

text \<open>\<open>value || ''\<close>: an absent value is the empty string.\<close>

definition valueOrEmpty :: "string option \<Rightarrow> string" where
  "valueOrEmpty v = (case v of None \<Rightarrow> [] | Some s \<Rightarrow> s)"

text \<open>
  The loop over \<open>Object.entries(variables)\<close>: the entries in the order the object lists
  them, each replaced in the result of the one before.
\<close>

fun replaceVariables :: "string \<Rightarrow> (string \<times> string option) list \<Rightarrow> string" where
  "replaceVariables result [] = result"
| "replaceVariables result ((variableName, v) # entries) =
     replaceVariables (replace result (variablePattern variableName) (valueOrEmpty v)) entries"

section \<open>JavaScript values\<close>

text \<open>
  The values \<open>JSON.parse\<close> yields, and \<open>undefined\<close> for what a property read yields where
  the property is absent. The code below tests numbers for truthiness only.
\<close>

datatype jsValue =
    JUndefined
  | JNull
  | JBool bool
  | JNum int
  | JStr string
  | JArr "jsValue list"
  | JObj "(string \<times> jsValue) list"

datatype exn = SyntaxError | TypeError | OtherError

fun truthy :: "jsValue \<Rightarrow> bool" where
  "truthy JUndefined = False"
| "truthy JNull = False"
| "truthy (JBool b) = b"
| "truthy (JNum n) = (n \<noteq> 0)"
| "truthy (JStr s) = (s \<noteq> [])"
| "truthy (JArr xs) = True"
| "truthy (JObj kvs) = True"

text \<open>
  \<open>v.key\<close>: a TypeError on \<open>null\<close> and \<open>undefined\<close>; the property of an object, or
  \<open>undefined\<close>. None of the keys read below is a built-in property of a string, a number,
  a boolean or an array.
\<close>

fun getProp :: "jsValue \<Rightarrow> string \<Rightarrow> exn + jsValue" where
  "getProp JUndefined key = Inl TypeError"
| "getProp JNull key = Inl TypeError"
| "getProp (JObj kvs) key = Inr (case map_of kvs key of None \<Rightarrow> JUndefined | Some v \<Rightarrow> v)"
| "getProp v key = Inr JUndefined"

fun isArray :: "jsValue \<Rightarrow> bool" where
  "isArray (JArr xs) = True"
| "isArray v = False"

fun arrayElements :: "jsValue \<Rightarrow> jsValue list" where
  "arrayElements (JArr xs) = xs"
| "arrayElements v = []"

text \<open>\<open>a || b\<close> on values.\<close>

definition jsOr :: "jsValue \<Rightarrow> jsValue \<Rightarrow> jsValue" where
  "jsOr a b = (if truthy a then a else b)"

section \<open>The component tree\<close>

record ComponentType =
  c_id :: string
  c_name :: string
  c_componentType :: string
  c_content :: string

datatype treeNode =
    ComponentNode ComponentType
  | FolderNode string string "treeNode list" bool

text \<open>
  \<open>findComponentById\<close> of the Section component: the first component with the id, depth
  first, children in order. A folder with the id is not a match; its children are searched.
\<close>

fun findComponentById :: "treeNode list \<Rightarrow> string \<Rightarrow> ComponentType option" where
  "findComponentById [] ident = None"
| "findComponentById (ComponentNode c # nodes) ident =
     (if c_id c = ident then Some c else findComponentById nodes ident)"
| "findComponentById (FolderNode fid fname children expanded # nodes) ident =
     (case findComponentById children ident of
        Some found \<Rightarrow> Some found
      | None \<Rightarrow> findComponentById nodes ident)"

text \<open>
  Modelled from the spec: \<open>getAllComponentsFromFolder\<close> of \<open>utils/treeUtils\<close> is not among
  the sources. The specification's \<open>collectComponentsUnder\<close>: every component reachable
  under a folder, depth first, children in order.
\<close>

fun collectComponents :: "treeNode \<Rightarrow> ComponentType list" where
  "collectComponents (ComponentNode c) = [c]"
| "collectComponents (FolderNode fid fname children expanded) =
     concat (map collectComponents children)"

fun collectComponentsUnder :: "treeNode \<Rightarrow> ComponentType list" where
  "collectComponentsUnder (FolderNode fid fname children expanded) =
     concat (map collectComponents children)"
| "collectComponentsUnder (ComponentNode c) = []"

text \<open>\<open>JSON.stringify\<close> of a component node, read back by \<open>JSON.parse\<close>.\<close>

definition componentJson :: "ComponentType \<Rightarrow> jsValue" where
  "componentJson c =
     JObj [(''type'', JStr ''component''), (''id'', JStr (c_id c)), (''name'', JStr (c_name c)),
           (''componentType'', JStr (c_componentType c)), (''content'', JStr (c_content c))]"

text \<open>The payload of a folder drag, as \<open>handleDragStart\<close> builds it.\<close>

definition folderPayload :: "string \<Rightarrow> ComponentType list \<Rightarrow> jsValue" where
  "folderPayload folderName components =
     JObj [(''dragType'', JStr ''folder''), (''folderName'', JStr folderName),
           (''components'', JArr (map componentJson components))]"

section \<open>Prompts and sections\<close>

record Section =
  s_id :: string
  s_type :: string
  s_name :: string
  s_content :: string
  s_open :: bool
  s_linkedComponentId :: "string option"
  s_originalContent :: "string option"
  s_dirty :: bool

record Prompt =
  p_id :: string
  p_name :: string
  p_sections :: "Section list"
  p_variables :: "(string \<times> string option) list"

text \<open>
  The calls a component makes into the prompt context, with the arguments as the code
  passes them.
\<close>

datatype storeCall =
    UpdateSection string string "(string \<times> jsValue) list"
  | AddSectionFromComponent string jsValue nat
  | UpdateSectionFromLinkedComponent string string ComponentType

subsection \<open>The prompt context\<close>

text \<open>
  Modelled from the spec: the prompt context (\<open>contexts/PromptContext\<close>), which implements
  \<open>updateSection\<close>, \<open>addSectionFromComponent\<close> and \<open>updateSectionFromLinkedComponent\<close>, is not
  among the sources. The definitions of this subsection follow the specification's
  PromptStore and LinkSync: the fields of a Section are text, so a call whose arguments
  are not text has no meaning there and is \<open>None\<close>.
\<close>

definition decodeField :: "string \<Rightarrow> jsValue \<Rightarrow> (Section \<Rightarrow> Section) option" where
  "decodeField key v =
     (if key = ''content'' then
        (case v of JStr t \<Rightarrow> Some (\<lambda>sec. sec\<lparr>s_content := t\<rparr>) | _ \<Rightarrow> None)
      else if key = ''type'' then
        (case v of JStr t \<Rightarrow> Some (\<lambda>sec. sec\<lparr>s_type := t\<rparr>) | _ \<Rightarrow> None)
      else if key = ''name'' then
        (case v of JStr t \<Rightarrow> Some (\<lambda>sec. sec\<lparr>s_name := t\<rparr>) | _ \<Rightarrow> None)
      else if key = ''linkedComponentId'' then
        (case v of
           JStr t \<Rightarrow> Some (\<lambda>sec. sec\<lparr>s_linkedComponentId := Some t\<rparr>)
         | JUndefined \<Rightarrow> Some (\<lambda>sec. sec\<lparr>s_linkedComponentId := None\<rparr>)
         | _ \<Rightarrow> None)
      else if key = ''originalContent'' then
        (case v of
           JStr t \<Rightarrow> Some (\<lambda>sec. sec\<lparr>s_originalContent := Some t\<rparr>)
         | JUndefined \<Rightarrow> Some (\<lambda>sec. sec\<lparr>s_originalContent := None\<rparr>)
         | _ \<Rightarrow> None)
      else None)"

text \<open>Merging the partial fields into a section, in the order the object lists them.\<close>

fun mergeFields :: "(string \<times> jsValue) list \<Rightarrow> Section \<Rightarrow> Section option" where
  "mergeFields [] sec = Some sec"
| "mergeFields ((key, v) # partialFields) sec =
     (case decodeField key v of
        None \<Rightarrow> None
      | Some f \<Rightarrow> mergeFields partialFields (f sec))"

text \<open>
  A section is dirty when its content has changed while it is linked and the new content
  differs from \<open>originalContent\<close>.
\<close>

definition markDirty :: "(string \<times> jsValue) list \<Rightarrow> Section \<Rightarrow> Section" where
  "markDirty partialFields sec =
     (if ''content'' \<in> set (map fst partialFields) \<and> s_linkedComponentId sec \<noteq> None
      then sec\<lparr>s_dirty := (Some (s_content sec) \<noteq> s_originalContent sec)\<rparr>
      else sec)"

definition updateOne :: "(string \<times> jsValue) list \<Rightarrow> Section \<Rightarrow> Section option" where
  "updateOne partialFields sec = map_option (markDirty partialFields) (mergeFields partialFields sec)"

fun updateSections ::
  "string \<Rightarrow> (string \<times> jsValue) list \<Rightarrow> Section list \<Rightarrow> Section list option" where
  "updateSections sectionId partialFields [] = Some []"
| "updateSections sectionId partialFields (sec # secs) =
     (case (if s_id sec = sectionId then updateOne partialFields sec else Some sec) of
        None \<Rightarrow> None
      | Some sec' \<Rightarrow> map_option ((#) sec') (updateSections sectionId partialFields secs))"

fun inPrompt ::
  "string \<Rightarrow> (Section list \<Rightarrow> Section list option) \<Rightarrow> Prompt list \<Rightarrow> Prompt list option" where
  "inPrompt promptId f [] = Some []"
| "inPrompt promptId f (p # ps) =
     (case (if p_id p = promptId
            then map_option (\<lambda>secs. p\<lparr>p_sections := secs\<rparr>) (f (p_sections p))
            else Some p) of
        None \<Rightarrow> None
      | Some p' \<Rightarrow> map_option ((#) p') (inPrompt promptId f ps))"

definition updateSection ::
  "string \<Rightarrow> string \<Rightarrow> (string \<times> jsValue) list \<Rightarrow> Prompt list \<Rightarrow> Prompt list option" where
  "updateSection promptId sectionId partialFields prompts =
     inPrompt promptId (updateSections sectionId partialFields) prompts"

definition decodeComponent :: "jsValue \<Rightarrow> ComponentType option" where
  "decodeComponent v =
     (case (getProp v ''id'', getProp v ''name'', getProp v ''componentType'',
            getProp v ''content'') of
        (Inr (JStr i), Inr (JStr n), Inr (JStr t), Inr (JStr c)) \<Rightarrow>
          Some \<lparr>c_id = i, c_name = n, c_componentType = t, c_content = c\<rparr>
      | _ \<Rightarrow> None)"

definition sectionFromComponent :: "string \<Rightarrow> ComponentType \<Rightarrow> Section" where
  "sectionFromComponent newId c =
     \<lparr>s_id = newId, s_type = c_componentType c, s_name = c_name c, s_content = c_content c,
      s_open = True, s_linkedComponentId = Some (c_id c),
      s_originalContent = Some (c_content c), s_dirty = False\<rparr>"

definition insertAt :: "nat \<Rightarrow> 'a \<Rightarrow> 'a list \<Rightarrow> 'a list" where
  "insertAt atIndex x xs = take atIndex xs @ [x] @ drop atIndex xs"

definition addSectionFromComponent ::
  "string \<Rightarrow> string \<Rightarrow> jsValue \<Rightarrow> nat \<Rightarrow> Prompt list \<Rightarrow> Prompt list option" where
  "addSectionFromComponent newId promptId component atIndex prompts =
     (case decodeComponent component of
        None \<Rightarrow> None
      | Some c \<Rightarrow>
          inPrompt promptId
            (\<lambda>secs. Some (insertAt atIndex (sectionFromComponent newId c) secs)) prompts)"

definition syncFromComponent :: "ComponentType \<Rightarrow> Section \<Rightarrow> Section" where
  "syncFromComponent c sec =
     sec\<lparr>s_content := c_content c, s_type := c_componentType c, s_name := c_name c,
         s_originalContent := Some (c_content c), s_dirty := False\<rparr>"

definition updateSectionFromLinkedComponent ::
  "string \<Rightarrow> string \<Rightarrow> ComponentType \<Rightarrow> Prompt list \<Rightarrow> Prompt list option" where
  "updateSectionFromLinkedComponent promptId sectionId c prompts =
     inPrompt promptId
       (\<lambda>secs. Some (map (\<lambda>sec. if s_id sec = sectionId then syncFromComponent c sec else sec)
                        secs)) prompts"

text \<open>
  Running the calls of one event in order. \<open>genId\<close> stands for the generator of section
  ids and \<open>k\<close> counts the ids handed out.
\<close>

fun runCalls ::
  "(nat \<Rightarrow> string) \<Rightarrow> storeCall list \<Rightarrow> nat \<times> Prompt list \<Rightarrow> (nat \<times> Prompt list) option" where
  "runCalls genId [] st = Some st"
| "runCalls genId (UpdateSection promptId sectionId partialFields # calls) (k, prompts) =
     (case updateSection promptId sectionId partialFields prompts of
        None \<Rightarrow> None
      | Some prompts' \<Rightarrow> runCalls genId calls (k, prompts'))"
| "runCalls genId (AddSectionFromComponent promptId component atIndex # calls) (k, prompts) =
     (case addSectionFromComponent (genId k) promptId component atIndex prompts of
        None \<Rightarrow> None
      | Some prompts' \<Rightarrow> runCalls genId calls (Suc k, prompts'))"
| "runCalls genId (UpdateSectionFromLinkedComponent promptId sectionId c # calls) (k, prompts) =
     (case updateSectionFromLinkedComponent promptId sectionId c prompts of
        None \<Rightarrow> None
      | Some prompts' \<Rightarrow> runCalls genId calls (k, prompts'))"

section \<open>The Section component\<close>

subsection \<open>Link synchronisation\<close>

text \<open>
  The effect that runs when the tree or the section's link fields change: the call it
  makes, if any. \<open>section.linkedComponentId\<close> is tested for truthiness, so an empty id is
  no link.
\<close>

definition linkSyncEffect :: "treeNode list \<Rightarrow> string \<Rightarrow> Section \<Rightarrow> storeCall list" where
  "linkSyncEffect treeData promptId sec =
     (case s_linkedComponentId sec of
        None \<Rightarrow> []
      | Some linkedId \<Rightarrow>
          if linkedId = [] then []
          else (case findComponentById treeData linkedId of
                  None \<Rightarrow> []
                | Some linkedComponent \<Rightarrow>
                    if Some (c_content linkedComponent) \<noteq> s_originalContent sec
                       \<or> c_componentType linkedComponent \<noteq> s_type sec
                       \<or> c_name linkedComponent \<noteq> s_name sec
                    then [UpdateSectionFromLinkedComponent promptId (s_id sec) linkedComponent]
                    else []))"

subsection \<open>handleDrop\<close>

text \<open>
  What \<open>e.dataTransfer.getData("application/json")\<close> returns, by what \<open>JSON.parse\<close> does with
  it: the empty string where nothing was transferred under that key and any other text
  that is not JSON make it throw a SyntaxError; the JSON text of a value yields the value.
\<close>

datatype transfer = NoData | NotJson | JsonText jsValue

fun jsonParse :: "transfer \<Rightarrow> exn + jsValue" where
  "jsonParse NoData = Inl SyntaxError"
| "jsonParse NotJson = Inl SyntaxError"
| "jsonParse (JsonText v) = Inr v"

definition bindE :: "exn + 'a \<Rightarrow> ('a \<Rightarrow> exn + 'b) \<Rightarrow> exn + 'b" where
  "bindE r f = (case r of Inl e \<Rightarrow> Inl e | Inr x \<Rightarrow> f x)"

text \<open>\<open>components.slice(1).forEach((component, idx) => ...)\<close>, from \<open>idx\<close> on.\<close>

fun forEachAdd :: "string \<Rightarrow> nat \<Rightarrow> nat \<Rightarrow> jsValue list \<Rightarrow> storeCall list" where
  "forEachAdd promptId index idx [] = []"
| "forEachAdd promptId index idx (component # components) =
     AddSectionFromComponent promptId component (index + 1 + idx)
       # forEachAdd promptId index (Suc idx) components"

definition folderDrop :: "string \<Rightarrow> string \<Rightarrow> nat \<Rightarrow> jsValue list \<Rightarrow> exn + storeCall list" where
  "folderDrop promptId sectionId index components =
     (case components of
        [] \<Rightarrow> Inr []
      | firstComponent # others \<Rightarrow>
          bindE (getProp firstComponent ''content'') (\<lambda>content.
          bindE (getProp firstComponent ''componentType'') (\<lambda>componentType.
          bindE (getProp firstComponent ''name'') (\<lambda>name.
          bindE (getProp firstComponent ''id'') (\<lambda>ident.
            Inr (UpdateSection promptId sectionId
                   [(''content'', content),
                    (''type'', jsOr componentType (JStr ''instruction'')),
                    (''name'', name),
                    (''linkedComponentId'', ident),
                    (''originalContent'', content)]
                 # forEachAdd promptId index 0 others))))))"

definition componentDrop :: "string \<Rightarrow> string \<Rightarrow> jsValue \<Rightarrow> exn + storeCall list" where
  "componentDrop promptId sectionId dragData =
     bindE (getProp dragData ''content'') (\<lambda>content.
     bindE (getProp dragData ''componentType'') (\<lambda>componentType.
     bindE (getProp dragData ''name'') (\<lambda>name.
     bindE (getProp dragData ''id'') (\<lambda>ident.
       Inr [UpdateSection promptId sectionId
              [(''content'', content),
               (''type'', componentType),
               (''name'', name),
               (''linkedComponentId'', ident),
               (''originalContent'', content)]]))))"

text \<open>The body of the \<open>try\<close> block: the calls it makes, or the exception it raises.\<close>

definition dropBody :: "string \<Rightarrow> string \<Rightarrow> nat \<Rightarrow> transfer \<Rightarrow> exn + storeCall list" where
  "dropBody promptId sectionId index data =
     bindE (jsonParse data) (\<lambda>dragData.
       if \<not> truthy dragData then Inr []
       else
         bindE (getProp dragData ''dragType'') (\<lambda>dragType.
         bindE (getProp dragData ''components'') (\<lambda>components.
           if dragType = JStr ''folder'' \<and> truthy components \<and> isArray components
           then folderDrop promptId sectionId index (arrayElements components)
           else
             bindE (getProp dragData ''type'') (\<lambda>ty.
             bindE (getProp dragData ''componentType'') (\<lambda>componentType.
               if ty = JStr ''component'' \<and> truthy componentType
               then componentDrop promptId sectionId dragData
               else Inr [])))))"

text \<open>
  \<open>handleDrop\<close>: it prevents the default and clears the drag-over flag of the component,
  neither of which touches a prompt, and runs the body; the exception of the body is
  caught and logged. \<open>Inr\<close> is a normal return with the calls made; \<open>Inl\<close> would be an
  exception thrown to the caller.
\<close>

record dropResult =
  calls :: "storeCall list"
  logged :: "exn option"

definition handleDrop :: "string \<Rightarrow> Section \<Rightarrow> nat \<Rightarrow> transfer \<Rightarrow> exn + dropResult" where
  "handleDrop promptId sec index data =
     (case dropBody promptId (s_id sec) index data of
        Inl error \<Rightarrow> Inr \<lparr>calls = [], logged = Some error\<rparr>
      | Inr cs \<Rightarrow> Inr \<lparr>calls = cs, logged = None\<rparr>)"

text \<open>
  The prompts after a drop: the calls of the handler, run on the prompt context.
\<close>

definition dropOnStore ::
  "(nat \<Rightarrow> string) \<Rightarrow> string \<Rightarrow> Section \<Rightarrow> nat \<Rightarrow> transfer \<Rightarrow> nat \<times> Prompt list
     \<Rightarrow> (nat \<times> Prompt list) option" where
  "dropOnStore genId promptId sec index data st =
     (case handleDrop promptId sec index data of
        Inl error \<Rightarrow> None
      | Inr r \<Rightarrow> runCalls genId (calls r) st)"

subsection \<open>handleSectionDragStart\<close>

text \<open>
  \<open>JSON.stringify\<close> of a section leaves out the keys whose value is \<open>undefined\<close>.
\<close>

definition optionalKey :: "string \<Rightarrow> string option \<Rightarrow> (string \<times> jsValue) list" where
  "optionalKey key v = (case v of None \<Rightarrow> [] | Some t \<Rightarrow> [(key, JStr t)])"

definition sectionJson :: "Section \<Rightarrow> jsValue" where
  "sectionJson sec =
     JObj ([(''id'', JStr (s_id sec)), (''type'', JStr (s_type sec)), (''name'', JStr (s_name sec)),
            (''content'', JStr (s_content sec)), (''open'', JBool (s_open sec))]
           @ optionalKey ''linkedComponentId'' (s_linkedComponentId sec)
           @ optionalKey ''originalContent'' (s_originalContent sec)
           @ [(''dirty'', JBool (s_dirty sec))])"

text \<open>The payload \<open>handleSectionDragStart\<close> stores for the drag of a section.\<close>

definition existingSectionPayload :: "string \<Rightarrow> Section \<Rightarrow> nat \<Rightarrow> jsValue" where
  "existingSectionPayload promptId sec index =
     JObj [(''dragType'', JStr ''existingSection''), (''sectionId'', JStr (s_id sec)),
           (''promptId'', JStr promptId), (''sectionData'', sectionJson sec),
           (''originalIndex'', JNum (int index))]"

section \<open>The tree node component\<close>

text \<open>
  What \<open>handleDragStart\<close> does to the drag event and the document: the value whose JSON
  text \<open>setData\<close> stored under \<open>application/json\<close>, if any; \<open>effectAllowed\<close>;
  whether \<open>preventDefault\<close>, which cancels the drag, and \<open>stopPropagation\<close> were called;
  whether the body was marked as dragging and a drag preview was made; and the calls into
  the prompt context, of which the handler makes none. \<open>getAllComponentsFromFolder\<close>, which
  is not among the sources, is a parameter.
\<close>

record dragStart =
  transferData :: "jsValue option"
  effectAllowed :: "string option"
  defaultPrevented :: bool
  propagationStopped :: bool
  bodyDragging :: bool
  dragPreview :: bool
  storeCalls :: "storeCall list"

definition handleDragStart :: "(treeNode \<Rightarrow> ComponentType list) \<Rightarrow> treeNode \<Rightarrow> dragStart" where
  "handleDragStart getAllComponentsFromFolder node =
     (case node of
        ComponentNode component \<Rightarrow>
          \<lparr>transferData = Some (componentJson component), effectAllowed = Some ''move'',
           defaultPrevented = False, propagationStopped = True, bodyDragging = True,
           dragPreview = True, storeCalls = []\<rparr>
      | FolderNode fid fname children expanded \<Rightarrow>
          (let allComponents = getAllComponentsFromFolder node
           in if length allComponents = 0 then
                \<lparr>transferData = None, effectAllowed = None, defaultPrevented = True,
                 propagationStopped = False, bodyDragging = False, dragPreview = False,
                 storeCalls = []\<rparr>
              else
                \<lparr>transferData = Some (folderPayload fname allComponents),
                 effectAllowed = Some ''move'', defaultPrevented = False,
                 propagationStopped = True, bodyDragging = True, dragPreview = True,
                 storeCalls = []\<rparr>))"

section \<open>The action bar\<close>

text \<open>
  \<open>Array.prototype.join\<close>: the first element, then the separator before each further one.
\<close>

fun joinLoop :: "string \<Rightarrow> string \<Rightarrow> string list \<Rightarrow> string" where
  "joinLoop sep r [] = r"
| "joinLoop sep r (x # xs) = joinLoop sep (r @ sep @ x) xs"

definition join :: "string \<Rightarrow> string list \<Rightarrow> string" where
  "join sep xs = (case xs of [] \<Rightarrow> [] | x # rest \<Rightarrow> joinLoop sep x rest)"

text \<open>
  The compiled prompt text of \<open>copyPrompt\<close>: the contents of the sections, those kept whose
  trimmed content is not empty, joined by two line feeds.
\<close>

definition compiledPromptText :: "Section list \<Rightarrow> string" where
  "compiledPromptText sections =
     join [CHR 0x0A, CHR 0x0A] (filter (\<lambda>content. trim content \<noteq> []) (map s_content sections))"

text \<open>
  \<open>copyToClipboard\<close> of the \<open>useClipboard\<close> hook. The environment says whether the clipboard
  API is there in a secure context and whether each way of copying succeeds. The result
  is the texts handed to a sink (\<open>navigator.clipboard.writeText\<close>, then the text area of the
  fallback) and the status set.
\<close>

datatype ClipboardStatus = Idle | Success | Error

record clipboardEnv =
  secureClipboard :: bool
  writeTextSucceeds :: bool
  execCommandSucceeds :: bool

definition copyToClipboard :: "clipboardEnv \<Rightarrow> string \<Rightarrow> string list \<times> ClipboardStatus" where
  "copyToClipboard env t =
     (if t = [] then ([], Error)
      else if secureClipboard env \<and> writeTextSucceeds env then ([t], Success)
      else ((if secureClipboard env then [t] else []) @ [t],
            if execCommandSucceeds env then Success else Error))"

text \<open>
  Modelled from the spec: \<open>getPromptVariables\<close> belongs to the prompt context, which is not
  among the sources. It is the \<open>variables\<close> mapping of the prompt with the id, and the empty
  mapping where there is no such prompt.
\<close>

definition getPromptVariables :: "Prompt list \<Rightarrow> string \<Rightarrow> (string \<times> string option) list" where
  "getPromptVariables prompts promptId =
     (case find (\<lambda>p. p_id p = promptId) prompts of None \<Rightarrow> [] | Some p \<Rightarrow> p_variables p)"

text \<open>
  \<open>copyPrompt\<close>. The separator after the system prompt is the string literal \<open>"\\n\\n"\<close> of
  the source: a backslash, the letter n, a backslash and the letter n.
\<close>

definition copyPrompt ::
  "clipboardEnv \<Rightarrow> Prompt list \<Rightarrow> string option \<Rightarrow> string \<Rightarrow> bool
     \<Rightarrow> (string list \<times> ClipboardStatus) option" where
  "copyPrompt env prompts activePromptId systemPrompt markdownEnabled =
     (case activePromptId of
        None \<Rightarrow> None
      | Some activeId \<Rightarrow>
          if activeId = [] then None
          else (case find (\<lambda>p. p_id p = activeId) prompts of
                  None \<Rightarrow> None
                | Some activePrompt \<Rightarrow>
                    (let promptText = compiledPromptText (p_sections activePrompt);
                         variables = getPromptVariables prompts activeId;
                         promptText = (if length variables > 0
                                       then replaceVariables promptText variables
                                       else promptText);
                         promptText = (if markdownEnabled \<and> systemPrompt \<noteq> []
                                       then systemPrompt @ [CHR 0x5C, CHR ''n'', CHR 0x5C, CHR ''n'']
                                              @ promptText
                                       else promptText)
                     in Some (copyToClipboard env promptText))))"

text \<open>
  Modelled from the spec: \<open>getCompiledPromptText\<close> belongs to the prompt context, which is
  not among the sources. It concatenates the section contents of the prompt with the id
  that are not empty when trimmed, in section order, separated by a blank line.
\<close>

definition getCompiledPromptText :: "Prompt list \<Rightarrow> string \<Rightarrow> string" where
  "getCompiledPromptText prompts promptId =
     (case find (\<lambda>p. p_id p = promptId) prompts of
        None \<Rightarrow> []
      | Some p \<Rightarrow> compiledPromptText (p_sections p))"

text \<open>
  \<open>copyPrompt\<close> of \<open>components/PromptEditor/ActionBar.tsx\<close>, which asks the prompt context
  for the compiled text and writes to the clipboard itself. The result is the text handed
  to \<open>navigator.clipboard.writeText\<close>.
\<close>

definition copyPromptActionBar ::
  "Prompt list \<Rightarrow> string option \<Rightarrow> string \<Rightarrow> bool \<Rightarrow> string option" where
  "copyPromptActionBar prompts activePromptId systemPrompt markdownEnabled =
     (case activePromptId of
        None \<Rightarrow> None
      | Some activeId \<Rightarrow>
          if activeId = [] then None
          else
            (let promptText = getCompiledPromptText prompts activeId;
                 variables = getPromptVariables prompts activeId;
                 promptText = (if length variables > 0
                               then replaceVariables promptText variables
                               else promptText);
                 promptText = (if markdownEnabled \<and> systemPrompt \<noteq> []
                               then systemPrompt @ [CHR 0x5C, CHR ''n'', CHR 0x5C, CHR ''n'']
                                      @ promptText
                               else promptText)
             in Some promptText))"

section \<open>The prompts route\<close>

text \<open>
  \<open>await request.json()\<close> throws a SyntaxError on a body that is not JSON text and yields
  the value otherwise.
\<close>

datatype requestBody = Unparseable | Body jsValue

record response =
  r_status :: nat
  r_body :: jsValue

text \<open>
  What the handler takes from outside the repository's sources: \<open>JSON.stringify\<close> and
  \<open>JSON.parse\<close>, the id \<open>uuidv4()\<close> returns, the time stamp, and the two statements on the
  database (\<open>lib/db\<close>): the insert with its seven bound values, and the select of a prompt
  by id, which yields the row as an object or \<open>undefined\<close>. Either statement may throw.
\<close>

record 'db runtime =
  jsonStringify :: "jsValue \<Rightarrow> jsValue"
  jsonParseValue :: "jsValue \<Rightarrow> exn + jsValue"
  uuidv4 :: string
  isoNow :: string
  insertRun :: "'db \<Rightarrow> jsValue list \<Rightarrow> exn + 'db"
  selectGet :: "'db \<Rightarrow> string \<Rightarrow> exn + jsValue"

text \<open>\<open>a ?? null\<close>.\<close>

definition orNull :: "jsValue \<Rightarrow> jsValue" where
  "orNull v = (if v = JUndefined \<or> v = JNull then JNull else v)"

text \<open>\<open>{ ...row, key: v }\<close> for a row that is an object.\<close>

fun withKey :: "jsValue \<Rightarrow> string \<Rightarrow> jsValue \<Rightarrow> jsValue" where
  "withKey (JObj kvs) key v =
     JObj (if key \<in> set (map fst kvs)
           then map (\<lambda>(k, old). if k = key then (k, v) else (k, old)) kvs
           else kvs @ [(key, v)])"
| "withKey row key v = JObj [(key, v)]"

definition errorResponse :: "nat \<Rightarrow> string \<Rightarrow> response" where
  "errorResponse code message = \<lparr>r_status = code, r_body = JObj [(''error'', JStr message)]\<rparr>"

text \<open>The body of the \<open>try\<close> block of \<open>POST\<close>: the database after it, and the response or the exception.\<close>

definition postBody :: "'db runtime \<Rightarrow> 'db \<Rightarrow> requestBody \<Rightarrow> 'db \<times> (exn + response)" where
  "postBody rt db request =
     (case request of
        Unparseable \<Rightarrow> (db, Inl SyntaxError)
      | Body body \<Rightarrow>
          (case (getProp body ''name'', getProp body ''sections'', getProp body ''variables'',
                 getProp body ''num'') of
             (Inr name, Inr sections, Inr variables, Inr num) \<Rightarrow>
               if \<not> truthy name then (db, Inr (errorResponse 400 ''Prompt name is required''))
               else
                 (let newPromptId = uuidv4 rt;
                      sectionsJson = jsonStringify rt (jsOr sections (JArr []));
                      variablesJson = jsonStringify rt (jsOr variables (JObj []));
                      currentTimestamp = isoNow rt
                  in case insertRun rt db
                            [JStr newPromptId, name, sectionsJson, variablesJson, orNull num,
                             JStr currentTimestamp, JStr currentTimestamp] of
                       Inl e \<Rightarrow> (db, Inl e)
                     | Inr db' \<Rightarrow>
                         (case selectGet rt db' newPromptId of
                            Inl e \<Rightarrow> (db', Inl e)
                          | Inr newPrompt \<Rightarrow>
                              if truthy newPrompt then
                                (db',
                                 bindE (getProp newPrompt ''sections'') (\<lambda>storedSections.
                                 bindE (jsonParseValue rt storedSections) (\<lambda>parsedSections.
                                 bindE (getProp newPrompt ''variables'') (\<lambda>storedVariables.
                                 bindE (jsonParseValue rt storedVariables) (\<lambda>parsedVariables.
                                   Inr \<lparr>r_status = 201,
                                        r_body = withKey (withKey newPrompt ''sections'' parsedSections)
                                                   ''variables'' parsedVariables\<rparr>)))))
                              else
                                (db', Inr (errorResponse 500
                                  ''Failed to create prompt or retrieve it after creation''))))
           | _ \<Rightarrow> (db, Inl TypeError)))"

definition POST :: "'db runtime \<Rightarrow> 'db \<Rightarrow> requestBody \<Rightarrow> 'db \<times> response" where
  "POST rt db request =
     (case postBody rt db request of
        (db', Inr resp) \<Rightarrow> (db', resp)
      | (db', Inl error) \<Rightarrow>
          (db', if error = SyntaxError
                then errorResponse 400 ''Invalid JSON format in request body''
                else errorResponse 500 ''Failed to create prompt''))"

section \<open>Notions of the specification\<close>

subsection \<open>Texts made of placeholders\<close>

text \<open>
  A text as a sequence of literal stretches and placeholders \<open>{{name}}\<close>. It is plain when
  no literal stretch has an open brace and no placeholder name has a brace; then the
  placeholders are the only places where a pattern of \<open>replaceVariables\<close> can match.
\<close>

datatype segment = Lit string | Var string

fun render :: "segment list \<Rightarrow> string" where
  "render [] = []"
| "render (Lit s # segs) = s @ render segs"
| "render (Var n # segs) = variablePattern n @ render segs"

definition braceFree :: "string \<Rightarrow> bool" where
  "braceFree s = (CHR ''{'' \<notin> set s \<and> CHR ''}'' \<notin> set s)"

fun plainSegment :: "segment \<Rightarrow> bool" where
  "plainSegment (Lit s) = (CHR ''{'' \<notin> set s)"
| "plainSegment (Var n) = braceFree n"

text \<open>
  A value is plain when it has no dollar sign, which \<open>replace\<close> would interpret, and no
  open brace, which could start a new placeholder.
\<close>

definition plainValue :: "string option \<Rightarrow> bool" where
  "plainValue v = (CHR ''$'' \<notin> set (valueOrEmpty v) \<and> CHR ''{'' \<notin> set (valueOrEmpty v))"

definition plainEntries :: "(string \<times> string option) list \<Rightarrow> bool" where
  "plainEntries entries = list_all (\<lambda>(n, v). literalName n \<and> plainValue v) entries"

text \<open>Each placeholder replaced by the value the mapping has for its name, at once.\<close>

fun substitute :: "(string \<rightharpoonup> string option) \<Rightarrow> segment \<Rightarrow> segment" where
  "substitute m (Lit s) = Lit s"
| "substitute m (Var n) = (case m n of None \<Rightarrow> Var n | Some v \<Rightarrow> Lit (valueOrEmpty v))"

fun substituteOne :: "string \<Rightarrow> string option \<Rightarrow> segment \<Rightarrow> segment" where
  "substituteOne n v (Lit s) = Lit s"
| "substituteOne n v (Var m) = (if m = n then Lit (valueOrEmpty v) else Var m)"

text \<open>
  The entries applied one after another to a text of segments, a value being a text of
  segments itself: the pass of an entry puts the value in place of every placeholder of
  its name that the text has at that time, and does not look into what it has put in.
\<close>

fun expand :: "string \<Rightarrow> segment list \<Rightarrow> segment list \<Rightarrow> segment list" where
  "expand n vs [] = []"
| "expand n vs (Lit s # segs) = Lit s # expand n vs segs"
| "expand n vs (Var m # segs) =
     (if m = n then vs @ expand n vs segs else Var m # expand n vs segs)"

fun substituteInOrder :: "(string \<times> segment list) list \<Rightarrow> segment list \<Rightarrow> segment list" where
  "substituteInOrder [] segs = segs"
| "substituteInOrder ((n, vs) # entries) segs = substituteInOrder entries (expand n vs segs)"

definition plainText :: "segment list \<Rightarrow> bool" where
  "plainText segs = list_all plainSegment segs"

definition plainTextEntries :: "(string \<times> segment list) list \<Rightarrow> bool" where
  "plainTextEntries entries =
     list_all (\<lambda>(n, vs). literalName n \<and> plainText vs \<and> CHR ''$'' \<notin> set (render vs)) entries"

text \<open>The mapping the code receives: each value as the string it renders to.\<close>

definition renderEntries :: "(string \<times> segment list) list \<Rightarrow> (string \<times> string option) list" where
  "renderEntries entries = map (\<lambda>(n, vs). (n, Some (render vs))) entries"

subsection \<open>The components of a tree\<close>

text \<open>Every component of the tree, depth first, children in order.\<close>

definition treeComponents :: "treeNode list \<Rightarrow> ComponentType list" where
  "treeComponents nodes = concat (map collectComponents nodes)"

subsection \<open>Joining, sections made from components, payload shapes\<close>

text \<open>The elements in order, with the separator between neighbours and nowhere else.\<close>

fun separated :: "string \<Rightarrow> string list \<Rightarrow> string" where
  "separated sep [] = []"
| "separated sep [x] = x"
| "separated sep (x # y # ys) = x @ sep @ separated sep (y # ys)"

text \<open>One new section per component, in order, with the ids handed out from \<open>k\<close> on.\<close>

fun newSections :: "(nat \<Rightarrow> string) \<Rightarrow> nat \<Rightarrow> ComponentType list \<Rightarrow> Section list" where
  "newSections genId k [] = []"
| "newSections genId k (c # cs) = sectionFromComponent (genId k) c # newSections genId (Suc k) cs"

text \<open>
  A folder payload with a components array, and a component payload with a
  \<open>componentType\<close> field.
\<close>

definition folderPayloadWithComponents :: "jsValue \<Rightarrow> bool" where
  "folderPayloadWithComponents v =
     (getProp v ''dragType'' = Inr (JStr ''folder'') \<and> (case getProp v ''components'' of Inr c \<Rightarrow> isArray c | Inl e \<Rightarrow> False))"

definition componentPayloadWithType :: "jsValue \<Rightarrow> bool" where
  "componentPayloadWithType v =
     (getProp v ''type'' = Inr (JStr ''component'')
      \<and> (case getProp v ''componentType'' of Inr t \<Rightarrow> t \<noteq> JUndefined | Inl e \<Rightarrow> False))"

section \<open>Properties of the variable utilities\<close>

subsection \<open>extractVariables\<close>

lemma takeWhile_stop: "c \<notin> set xs \<Longrightarrow> takeWhile (\<lambda>x. x \<noteq> c) (xs @ c # ys) = xs"
  by (induction xs) auto







subsection \<open>replaceVariables\<close>

lemma getSubstitution_plain:
  "CHR ''$'' \<notin> set v \<Longrightarrow> getSubstitution m b a v = v"
  by (induction m b a v rule: getSubstitution.induct) auto

lemma variablePattern_nonempty: "variablePattern n \<noteq> []"
  by (simp add: variablePattern_def)

text \<open>A stretch without an open brace is passed over unchanged.\<close>

lemma replaceFrom_skip:
  "CHR ''{'' \<notin> set s \<Longrightarrow>
   replaceFrom (variablePattern n) v b (s @ t) = s @ replaceFrom (variablePattern n) v (b @ s) t"
proof (induction s arbitrary: b)
  case Nil
  show ?case by simp
next
  case (Cons c s)
  then have "take (length (variablePattern n)) (c # s @ t) \<noteq> variablePattern n"
    by (auto simp: variablePattern_def)
  with Cons show ?case by simp
qed

lemma replaceFrom_prefix:
  "p \<noteq> [] \<Longrightarrow>
   replaceFrom p v b (p @ t) = getSubstitution p b t v @ replaceFrom p v (b @ p) t"
proof (cases p)
  case Nil
  assume "p \<noteq> []"
  with Nil show ?thesis by simp
next
  case (Cons c cs)
  show ?thesis unfolding Cons by simp
qed

lemma replaceFrom_match:
  "replaceFrom (variablePattern n) v b (variablePattern n @ t) =
     getSubstitution (variablePattern n) b t v
       @ replaceFrom (variablePattern n) v (b @ variablePattern n) t"
  by (rule replaceFrom_prefix) (rule variablePattern_nonempty)

lemma variablePattern_prefix_same:
  assumes "braceFree n" "braceFree m"
    and "take (length (variablePattern n)) (variablePattern m @ t) = variablePattern n"
  shows "m = n"
proof -
  from assms(3) obtain u where "variablePattern m @ t = variablePattern n @ u"
    by (metis append_take_drop_id)
  then have "m @ ''}}'' @ t = n @ ''}}'' @ u" by (simp add: variablePattern_def)
  then have "takeWhile (\<lambda>x. x \<noteq> CHR ''}'') (m @ CHR ''}'' # (CHR ''}'' # t))
           = takeWhile (\<lambda>x. x \<noteq> CHR ''}'') (n @ CHR ''}'' # (CHR ''}'' # u))" by simp
  then show ?thesis using assms(1,2) by (simp add: takeWhile_stop braceFree_def)
qed

text \<open>The placeholder of another name is passed over unchanged.\<close>

lemma replaceFrom_other:
  assumes "braceFree n" "braceFree m" "m \<noteq> n"
  shows "replaceFrom (variablePattern n) v b (variablePattern m @ t) =
     variablePattern m @ replaceFrom (variablePattern n) v (b @ variablePattern m) t"
proof -
  let ?p = "variablePattern n"
  have first: "take (length ?p) (variablePattern m @ t) \<noteq> ?p"
    using variablePattern_prefix_same[OF assms(1,2)] assms(3) by blast
  have second: "take (length ?p) (CHR ''{'' # m @ ''}}'' @ t) \<noteq> ?p"
    using assms(2) by (cases m) (auto simp: variablePattern_def braceFree_def)
  have tail: "replaceFrom ?p v (b @ ''{{'') ((m @ ''}}'') @ t) =
      (m @ ''}}'') @ replaceFrom ?p v ((b @ ''{{'') @ (m @ ''}}'')) t"
    by (rule replaceFrom_skip) (use assms(2) in \<open>simp add: braceFree_def\<close>)
  have "replaceFrom ?p v b (variablePattern m @ t)
      = CHR ''{'' # replaceFrom ?p v (b @ ''{'') (CHR ''{'' # m @ ''}}'' @ t)"
    using first by (simp add: variablePattern_def)
  also have "\<dots> = CHR ''{'' # CHR ''{'' # replaceFrom ?p v (b @ ''{{'') ((m @ ''}}'') @ t)"
    using second by simp
  also have "\<dots> = variablePattern m @ replaceFrom ?p v (b @ variablePattern m) t"
    unfolding tail by (simp add: variablePattern_def)
  finally show ?thesis .
qed

lemma literalName_braceFree: "literalName n \<Longrightarrow> braceFree n"
  by (auto simp: literalName_def braceFree_def list_all_iff regexSyntaxChar_def)

text \<open>
  C1, as the claim states it, fails: the entries are processed one after another, each
  over the text the entries before it left. The value of \<open>a\<close> brings in \<open>{{b}}\<close>, and the
  entry of \<open>b\<close>, which comes later, replaces that occurrence in the same call.
\<close>

theorem replaceVariables_rescans_injected:
  "replaceVariables ''{{a}}'' [(''a'', Some ''{{b}}'')] = ''{{b}}''
   \<and> replaceVariables ''{{a}}'' [(''a'', Some ''{{b}}''), (''b'', Some ''X'')] = ''X''"
  by (simp add: replace_def variablePattern_def valueOrEmpty_def)

text \<open>
  Replacing in a plain text, one entry: the placeholders of the name become the value,
  everything else stays.
\<close>

lemma replace_segments:
  assumes "list_all plainSegment segs" "braceFree n" "CHR ''$'' \<notin> set (valueOrEmpty v)"
  shows "replaceFrom (variablePattern n) (valueOrEmpty v) b (render segs)
       = render (map (substituteOne n v) segs)"
  using assms(1)
proof (induction segs arbitrary: b)
  case Nil
  show ?case by simp
next
  case (Cons seg segs)
  then have ih: "\<And>b. replaceFrom (variablePattern n) (valueOrEmpty v) b (render segs)
       = render (map (substituteOne n v) segs)" by simp
  show ?case
  proof (cases seg)
    case (Lit s)
    with Cons.prems have "CHR ''{'' \<notin> set s" by simp
    then show ?thesis using Lit by (simp add: replaceFrom_skip ih)
  next
    case (Var m)
    with Cons.prems have bm: "braceFree m" by simp
    show ?thesis
    proof (cases "m = n")
      case True
      then show ?thesis using Var
        by (simp add: replaceFrom_match getSubstitution_plain assms(3) ih)
    next
      case False
      then show ?thesis using Var
        by (simp add: replaceFrom_other[OF assms(2) bm] ih)
    qed
  qed
qed

lemma render_append: "render (xs @ ys) = render xs @ render ys"
  by (induction xs rule: render.induct) simp_all

lemma render_expand:
  "render (map (substituteOne n (Some (render vs))) segs) = render (expand n vs segs)"
  by (induction segs rule: render.induct) (simp_all add: render_append valueOrEmpty_def)

lemma plainText_expand:
  "plainText vs \<Longrightarrow> plainText segs \<Longrightarrow> plainText (expand n vs segs)"
  by (induction segs rule: render.induct) (simp_all add: plainText_def)

text \<open>
  C1, amended. \<open>replaceVariables\<close> makes one replace-all pass per entry, in the order of the
  mapping, each over the text the passes before it left. For a text and values made of
  stretches without an open brace and of placeholders with names without braces, names
  of the mapping without regular-expression syntax characters and values without a
  dollar sign, the result is that of applying the entries one after another, each putting
  its value in place of every placeholder of its name present at that time. So an
  occurrence \<open>{{b}}\<close> that the value of \<open>a\<close> brings in is replaced by the value of \<open>b\<close> when
  the entry of \<open>b\<close> comes after that of \<open>a\<close>, and stays when it comes before; and no pass
  scans the text it has put in itself, so a value of \<open>a\<close> that contains \<open>{{a}}\<close> is put in
  once.
\<close>

theorem replaceVariables_one_pass_per_entry:
  assumes "plainText segs" "plainTextEntries entries"
  shows "replaceVariables (render segs) (renderEntries entries)
           = render (substituteInOrder entries segs)
       \<and> (a \<noteq> b \<longrightarrow>
             substituteInOrder [(a, va), (b, vb)] [Var a] = expand b vb va
             \<and> substituteInOrder [(b, vb), (a, va)] [Var a] = va)
       \<and> substituteInOrder [(a, va)] [Var a] = va"
proof (intro conjI impI)
  show "replaceVariables (render segs) (renderEntries entries)
           = render (substituteInOrder entries segs)"
    using assms
  proof (induction entries arbitrary: segs)
    case Nil
    show ?case by (simp add: renderEntries_def)
  next
    case (Cons e entries)
    obtain n vs where e: "e = (n, vs)" by (cases e)
    from Cons.prems(2) e have lit: "literalName n" and pv: "plainText vs"
      and nd: "CHR ''$'' \<notin> set (render vs)" and rest: "plainTextEntries entries"
      by (simp_all add: plainTextEntries_def)
    have step: "replace (render segs) (variablePattern n) (render vs) = render (expand n vs segs)"
      using replace_segments[OF _ literalName_braceFree[OF lit], of segs "Some (render vs)" "[]"]
        Cons.prems(1) nd
      by (simp add: replace_def plainText_def valueOrEmpty_def render_expand)
    have "replaceVariables (render segs) (renderEntries (e # entries))
        = replaceVariables (render (expand n vs segs)) (renderEntries entries)"
      using step by (simp add: e renderEntries_def valueOrEmpty_def)
    also have "\<dots> = render (substituteInOrder entries (expand n vs segs))"
      by (rule Cons.IH[OF plainText_expand[OF pv Cons.prems(1)] rest])
    finally show ?case by (simp add: e)
  qed
next
  assume "a \<noteq> b"
  then show "substituteInOrder [(a, va), (b, vb)] [Var a] = expand b vb va"
    and "substituteInOrder [(b, vb), (a, va)] [Var a] = va"
    by simp_all
next
  show "substituteInOrder [(a, va)] [Var a] = va" by simp
qed

text \<open>
  Two placeholders of \<open>a\<close>, a value of \<open>a\<close> with two placeholders of \<open>b\<close>: all are replaced
  when \<open>b\<close> comes later, none of those brought in when \<open>b\<close> came first; and a value of \<open>a\<close>
  that contains \<open>{{a}}\<close>.
\<close>

theorem replaceVariables_one_pass_per_entry_witness:
  "plainText [Lit ''Hi '', Var ''a'', Lit '' and '', Var ''a'']
   \<and> plainTextEntries [(''a'', [Var ''b'', Var ''b'', Lit ''y'']), (''b'', [Lit ''V''])]
   \<and> plainTextEntries [(''b'', [Lit ''V'']), (''a'', [Var ''b'', Var ''b'', Lit ''y''])]
   \<and> plainTextEntries [(''a'', [Lit ''see '', Var ''a''])]
   \<and> replaceVariables ''Hi {{a}} and {{a}}'' [(''a'', Some ''{{b}}{{b}}y''), (''b'', Some ''V'')]
       = ''Hi VVy and VVy''
   \<and> replaceVariables ''Hi {{a}} and {{a}}'' [(''b'', Some ''V''), (''a'', Some ''{{b}}{{b}}y'')]
       = ''Hi {{b}}{{b}}y and {{b}}{{b}}y''
   \<and> replaceVariables ''Hi {{a}} and {{a}}'' [(''a'', Some ''see {{a}}'')]
       = ''Hi see {{a}} and see {{a}}''"
  using
    replaceVariables_one_pass_per_entry
      [of "[Lit ''Hi '', Var ''a'', Lit '' and '', Var ''a'']"
          "[(''a'', [Var ''b'', Var ''b'', Lit ''y'']), (''b'', [Lit ''V''])]"]
    replaceVariables_one_pass_per_entry
      [of "[Lit ''Hi '', Var ''a'', Lit '' and '', Var ''a'']"
          "[(''b'', [Lit ''V'']), (''a'', [Var ''b'', Var ''b'', Lit ''y''])]"]
    replaceVariables_one_pass_per_entry
      [of "[Lit ''Hi '', Var ''a'', Lit '' and '', Var ''a'']"
          "[(''a'', [Lit ''see '', Var ''a''])]"]
  by (simp add: plainText_def plainTextEntries_def renderEntries_def literalName_def
      regexSyntaxChar_def braceFree_def variablePattern_def)

lemma substituteOne_plain:
  "plainSegment seg \<Longrightarrow> plainValue v \<Longrightarrow> plainSegment (substituteOne n v seg)"
  by (cases seg) (auto simp: plainValue_def)

lemma substitute_step:
  "substitute (map_of es) (substituteOne n v seg) = substitute (map_of ((n, v) # es)) seg"
  by (cases seg) auto

text \<open>
  On a plain text with plain entries, the passes of \<open>replaceVariables\<close> amount to one
  substitution of every placeholder by the value the mapping has for its name.
\<close>

lemma replaceVariables_segments:
  assumes "list_all plainSegment segs" "plainEntries entries"
  shows "replaceVariables (render segs) entries = render (map (substitute (map_of entries)) segs)"
  using assms
proof (induction entries arbitrary: segs)
  case Nil
  have "\<And>seg. substitute (map_of []) seg = seg"
    subgoal for seg by (cases seg) simp_all
    done
  then show ?case by simp
next
  case (Cons e entries)
  obtain n v where e: "e = (n, v)" by (cases e)
  from Cons.prems e have lit: "literalName n" and pv: "plainValue v"
    and rest: "plainEntries entries"
    by (simp_all add: plainEntries_def)
  have pl: "list_all plainSegment (map (substituteOne n v) segs)"
    using Cons.prems(1) pv by (simp add: list_all_iff substituteOne_plain)
  have "replaceVariables (render segs) (e # entries)
      = replaceVariables (render (map (substituteOne n v) segs)) entries"
    using e pv replace_segments[OF Cons.prems(1) literalName_braceFree[OF lit], of v "[]"]
    by (simp add: replace_def plainValue_def)
  also have "\<dots> = render (map (substitute (map_of entries)) (map (substituteOne n v) segs))"
    by (rule Cons.IH[OF pl rest])
  also have "\<dots> = render (map (substitute (map_of (e # entries))) segs)"
    unfolding e by (simp add: substitute_step comp_def del: map_of.simps)
  finally show ?case .
qed

text \<open>
  C4, as the claim states it, fails, for three reasons. A value can bring in the
  placeholder of an entry that one order has still to process and the other has already
  processed; a replacement can complete a placeholder out of the text around it (the value
  \<open>w\<close> of \<open>a\<close> inside \<open>{{x{{a}}y}}\<close> makes \<open>{{xwy}}\<close>), although no value has a brace; and a
  value with a dollar pattern copies the text around the match, which depends on what has
  been replaced before (the values \<open>$'\<close> of \<open>a\<close> and \<open>$`\<close> of \<open>b\<close> in \<open>{{a}}{{b}}\<close>).
\<close>

theorem replaceVariables_order_dependent:
  "replaceVariables ''{{a}}'' [(''a'', Some ''{{b}}''), (''b'', Some ''X'')]
     \<noteq> replaceVariables ''{{a}}'' [(''b'', Some ''X''), (''a'', Some ''{{b}}'')]
   \<and> replaceVariables ''{{x{{a}}y}}'' [(''a'', Some ''w''), (''xwy'', Some ''Z'')]
     \<noteq> replaceVariables ''{{x{{a}}y}}'' [(''xwy'', Some ''Z''), (''a'', Some ''w'')]
   \<and> replaceVariables ''{{a}}{{b}}''
       [(''a'', Some [CHR ''$'', CHR 0x27]), (''b'', Some [CHR ''$'', CHR 0x60])]
     \<noteq> replaceVariables ''{{a}}{{b}}''
       [(''b'', Some [CHR ''$'', CHR 0x60]), (''a'', Some [CHR ''$'', CHR 0x27])]"
  by (simp add: replace_def variablePattern_def valueOrEmpty_def)

text \<open>
  C4, amended. For a plain text (literal stretches without an open brace, placeholders
  with names without braces) and a mapping whose names are literal and whose values have
  neither a dollar sign nor an open brace, the result of \<open>replaceVariables\<close> does not
  depend on the order of the entries: two lists of the same entries, each name once, give
  the same text.
\<close>

theorem replaceVariables_order_independent_plain:
  assumes "list_all plainSegment segs" "plainEntries entries" "plainEntries entries'"
    and "distinct (map fst entries)" "distinct (map fst entries')" "set entries = set entries'"
  shows "replaceVariables (render segs) entries = replaceVariables (render segs) entries'"
proof -
  have "map_of entries = map_of entries'"
    using assms(4,5,6) by (simp add: map_of_inject_set)
  then show ?thesis
    by (simp add: replaceVariables_segments assms(1,2,3))
qed

theorem replaceVariables_order_independent_plain_witness:
  "list_all plainSegment [Lit ''Hi '', Var ''a'', Lit '' and '', Var ''b'']
   \<and> plainEntries [(''a'', Some ''1''), (''b'', None)]
   \<and> plainEntries [(''b'', None), (''a'', Some ''1'')]
   \<and> set [(''a'', Some ''1''), (''b'', None)] = set [(''b'', None), (''a'', Some ''1'')]
   \<and> render [Lit ''Hi '', Var ''a'', Lit '' and '', Var ''b''] = ''Hi {{a}} and {{b}}''
   \<and> replaceVariables ''Hi {{a}} and {{b}}'' [(''a'', Some ''1''), (''b'', None)] = ''Hi 1 and ''
   \<and> replaceVariables ''Hi {{a}} and {{b}}'' [(''b'', None), (''a'', Some ''1'')] = ''Hi 1 and ''"
  using replaceVariables_order_independent_plain
    [of "[Lit ''Hi '', Var ''a'', Lit '' and '', Var ''b'']"
        "[(''a'', Some ''1''), (''b'', None)]" "[(''b'', None), (''a'', Some ''1'')]"]
  by (simp add: plainEntries_def plainValue_def literalName_def regexSyntaxChar_def
      braceFree_def variablePattern_def valueOrEmpty_def replace_def insert_commute)

section \<open>Properties of the action bar\<close>

lemma joinLoop_concat: "joinLoop sep r xs = r @ concat (map (\<lambda>x. sep @ x) xs)"
  by (induction xs arbitrary: r) simp_all

lemma separated_concat: "separated sep (x # xs) = x @ concat (map (\<lambda>x. sep @ x) xs)"
  by (induction xs arbitrary: x) simp_all

lemma join_separated: "join sep xs = separated sep xs"
  by (cases xs) (simp_all add: join_def joinLoop_concat separated_concat)

text \<open>
  C7. For every prompt, the compiled prompt text is the contents of exactly those sections
  whose trimmed content is not empty, in section order, with a blank line (two line
  feeds) between neighbours and no separator anywhere else; in particular sections with
  the contents \<open>""\<close>, \<open>"  "\<close> and \<open>"Body"\<close> compile to exactly \<open>"Body"\<close>.
\<close>

theorem compiledPromptText_blank_line_joined:
  "compiledPromptText sections =
     separated [CHR 0x0A, CHR 0x0A]
       (filter (\<lambda>content. trim content \<noteq> []) (map s_content sections))
   \<and> (map s_content sections = ['''', ''  '', ''Body''] \<longrightarrow>
        compiledPromptText sections = ''Body'')"
proof (intro conjI impI)
  show "compiledPromptText sections =
     separated [CHR 0x0A, CHR 0x0A]
       (filter (\<lambda>content. trim content \<noteq> []) (map s_content sections))"
    by (simp add: compiledPromptText_def join_separated)
next
  assume "map s_content sections = ['''', ''  '', ''Body'']"
  then show "compiledPromptText sections = ''Body''"
    by (simp add: compiledPromptText_def join_def trim_def isWhiteSpace_def)
qed

theorem compiledPromptText_blank_line_joined_witness:
  "compiledPromptText
     [\<lparr>s_id = ''s1'', s_type = ''instruction'', s_name = ''A'', s_content = '''', s_open = True,
       s_linkedComponentId = None, s_originalContent = None, s_dirty = False\<rparr>,
      \<lparr>s_id = ''s2'', s_type = ''context'', s_name = ''B'', s_content = ''  '', s_open = True,
       s_linkedComponentId = None, s_originalContent = None, s_dirty = False\<rparr>,
      \<lparr>s_id = ''s3'', s_type = ''example'', s_name = ''C'', s_content = ''Body'', s_open = False,
       s_linkedComponentId = None, s_originalContent = None, s_dirty = False\<rparr>]
   = ''Body''"
  using compiledPromptText_blank_line_joined
    [of "[\<lparr>s_id = ''s1'', s_type = ''instruction'', s_name = ''A'', s_content = '''', s_open = True,
       s_linkedComponentId = None, s_originalContent = None, s_dirty = False\<rparr>,
      \<lparr>s_id = ''s2'', s_type = ''context'', s_name = ''B'', s_content = ''  '', s_open = True,
       s_linkedComponentId = None, s_originalContent = None, s_dirty = False\<rparr>,
      \<lparr>s_id = ''s3'', s_type = ''example'', s_name = ''C'', s_content = ''Body'', s_open = False,
       s_linkedComponentId = None, s_originalContent = None, s_dirty = False\<rparr>]"]
  by (simp add: trim_def isWhiteSpace_def)

text \<open>
  C9. With markdown mode on and a system prompt \<open>SYS\<close>, a prompt whose only section holds
  \<open>Body\<close> and which has no variables: what \<open>copyPrompt\<close> hands to the clipboard is \<open>SYS\<close>, then
  a backslash, the letter n, a backslash and the letter n, then \<open>Body\<close>. It is not \<open>SYS\<close>, two
  line feeds, \<open>Body\<close>. Both versions of \<open>copyPrompt\<close> do so.
\<close>

theorem copyPrompt_literal_backslash_n:
  "copyPrompt \<lparr>secureClipboard = True, writeTextSucceeds = True, execCommandSucceeds = True\<rparr>
     [\<lparr>p_id = ''p1'', p_name = ''P'',
       p_sections = [\<lparr>s_id = ''s1'', s_type = ''instruction'', s_name = ''A'',
                      s_content = ''Body'', s_open = True, s_linkedComponentId = None,
                      s_originalContent = None, s_dirty = False\<rparr>],
       p_variables = []\<rparr>]
     (Some ''p1'') ''SYS'' True
   = Some ([''SYS'' @ [CHR 0x5C, CHR ''n'', CHR 0x5C, CHR ''n''] @ ''Body''], Success)
   \<and> ''SYS'' @ [CHR 0x5C, CHR ''n'', CHR 0x5C, CHR ''n''] @ ''Body''
       \<noteq> ''SYS'' @ [CHR 0x0A, CHR 0x0A] @ ''Body''
   \<and> copyPromptActionBar
       [\<lparr>p_id = ''p1'', p_name = ''P'',
         p_sections = [\<lparr>s_id = ''s1'', s_type = ''instruction'', s_name = ''A'',
                        s_content = ''Body'', s_open = True, s_linkedComponentId = None,
                        s_originalContent = None, s_dirty = False\<rparr>],
         p_variables = []\<rparr>]
       (Some ''p1'') ''SYS'' True
       = Some (''SYS'' @ [CHR 0x5C, CHR ''n'', CHR 0x5C, CHR ''n''] @ ''Body'')"
  by (simp add: copyPrompt_def copyPromptActionBar_def copyToClipboard_def compiledPromptText_def
      getPromptVariables_def getCompiledPromptText_def join_def trim_def isWhiteSpace_def)

section \<open>Properties of the prompts route\<close>

text \<open>
  C8. A request whose body is the JSON text \<open>null\<close> has no name. Taking the fields out of
  it raises a TypeError, which is not a SyntaxError, so the handler answers 500 with
  \<open>Failed to create prompt\<close> and leaves the database as it was.
\<close>

theorem POST_null_body:
  "POST rt db (Body JNull) = (db, errorResponse 500 ''Failed to create prompt'')"
  by (simp add: POST_def postBody_def)

text \<open>
  What the handler does on the other requests without a usable name: a body that is not
  JSON text, and a body other than \<open>null\<close> whose \<open>name\<close> is absent or falsy.
\<close>

lemma POST_unparseable:
  "POST rt db Unparseable = (db, errorResponse 400 ''Invalid JSON format in request body'')"
  by (simp add: POST_def postBody_def)

lemma POST_name_missing:
  assumes "body \<noteq> JNull" "body \<noteq> JUndefined" "getProp body ''name'' = Inr name" "\<not> truthy name"
  shows "POST rt db (Body body) = (db, errorResponse 400 ''Prompt name is required'')"
proof -
  from assms(1,2) obtain s v n where "getProp body ''sections'' = Inr s"
    "getProp body ''variables'' = Inr v" "getProp body ''num'' = Inr n"
    by (cases body) auto
  then show ?thesis using assms(3,4) by (simp add: POST_def postBody_def)
qed

section \<open>Properties of the tree node component\<close>

text \<open>
  C6. For every folder under which the collection of components is empty, starting a drag
  of it is refused at the source: no payload is written to the drag medium, the default is
  prevented so that the drag does not start, and no call into the prompt context is made,
  so no section of any prompt changes. This holds whatever \<open>getAllComponentsFromFolder\<close>
  computes, and so for the depth-first collection of the specification.
\<close>

theorem empty_folder_drag_refused:
  "(getAllComponentsFromFolder (FolderNode fid fname children expanded) = [] \<longrightarrow>
      handleDragStart getAllComponentsFromFolder (FolderNode fid fname children expanded) =
        \<lparr>transferData = None, effectAllowed = None, defaultPrevented = True,
         propagationStopped = False, bodyDragging = False, dragPreview = False,
         storeCalls = []\<rparr>)
   \<and> (collectComponentsUnder (FolderNode fid fname children expanded) = [] \<longrightarrow>
      handleDragStart collectComponentsUnder (FolderNode fid fname children expanded) =
        \<lparr>transferData = None, effectAllowed = None, defaultPrevented = True,
         propagationStopped = False, bodyDragging = False, dragPreview = False,
         storeCalls = []\<rparr>)"
  by (simp add: handleDragStart_def Let_def del: collectComponentsUnder.simps)

theorem empty_folder_drag_refused_witness:
  "collectComponentsUnder
     (FolderNode ''f1'' ''Drafts'' [FolderNode ''f2'' ''Old'' [] True, FolderNode ''f3'' ''New'' [] False]
        True) = []
   \<and> handleDragStart collectComponentsUnder
       (FolderNode ''f1'' ''Drafts'' [FolderNode ''f2'' ''Old'' [] True, FolderNode ''f3'' ''New'' [] False]
          True) =
         \<lparr>transferData = None, effectAllowed = None, defaultPrevented = True,
          propagationStopped = False, bodyDragging = False, dragPreview = False,
          storeCalls = []\<rparr>"
  using empty_folder_drag_refused
    [of collectComponentsUnder "''f1''" "''Drafts''"
        "[FolderNode ''f2'' ''Old'' [] True, FolderNode ''f3'' ''New'' [] False]" True]
  by simp

section \<open>Properties of the Section component\<close>

subsection \<open>Drops that change nothing\<close>

text \<open>
  C10. For every drop whose payload is not a folder payload with a components array and
  not a component payload with a \<open>componentType\<close> field, the drop handler makes no call
  into the prompt context, so the prompts are as before, and it returns normally. This
  includes a payload that does not parse, the empty payload, and the payload of the drag
  of an existing section.
\<close>

theorem handleDrop_other_payload_no_mutation:
  "((case jsonParse data of
       Inl e \<Rightarrow> True
     | Inr dragData \<Rightarrow>
         \<not> folderPayloadWithComponents dragData \<and> \<not> componentPayloadWithType dragData) \<longrightarrow>
      handleDrop promptId sec index data =
        Inr \<lparr>calls = [], logged = (case jsonParse data of Inl e \<Rightarrow> Some e | Inr v \<Rightarrow> None)\<rparr>
      \<and> dropOnStore genId promptId sec index data st = Some st)
   \<and> handleDrop promptId sec index NoData = Inr \<lparr>calls = [], logged = Some SyntaxError\<rparr>
   \<and> handleDrop promptId sec index NotJson = Inr \<lparr>calls = [], logged = Some SyntaxError\<rparr>
   \<and> handleDrop promptId sec index (JsonText (existingSectionPayload promptId' sec' index'))
       = Inr \<lparr>calls = [], logged = None\<rparr>"
proof (intro conjI impI)
  assume other: "case jsonParse data of
       Inl e \<Rightarrow> True
     | Inr dragData \<Rightarrow>
         \<not> folderPayloadWithComponents dragData \<and> \<not> componentPayloadWithType dragData"
  show none: "handleDrop promptId sec index data =
      Inr \<lparr>calls = [], logged = (case jsonParse data of Inl e \<Rightarrow> Some e | Inr v \<Rightarrow> None)\<rparr>"
  proof (cases data)
    case NoData
    then show ?thesis by (simp add: handleDrop_def dropBody_def bindE_def)
  next
    case NotJson
    then show ?thesis by (simp add: handleDrop_def dropBody_def bindE_def)
  next
    case (JsonText v)
    show ?thesis
    proof (cases "truthy v")
      case False
      then show ?thesis using JsonText by (simp add: handleDrop_def dropBody_def bindE_def)
    next
      case True
      then obtain dt cs ty ct where p: "getProp v ''dragType'' = Inr dt"
        "getProp v ''components'' = Inr cs" "getProp v ''type'' = Inr ty"
        "getProp v ''componentType'' = Inr ct"
        by (cases v) auto
      from other JsonText p have nf: "\<not> (dt = JStr ''folder'' \<and> isArray cs)"
        and nc: "\<not> (ty = JStr ''component'' \<and> ct \<noteq> JUndefined)"
        by (simp_all add: folderPayloadWithComponents_def componentPayloadWithType_def)
      from nc have nc': "\<not> (ty = JStr ''component'' \<and> truthy ct)" by auto
      show ?thesis using JsonText True p nf nc'
        by (auto simp add: handleDrop_def dropBody_def bindE_def)
    qed
  qed
  show "dropOnStore genId promptId sec index data st = Some st"
    by (simp add: dropOnStore_def none)
next
  show "handleDrop promptId sec index NoData = Inr \<lparr>calls = [], logged = Some SyntaxError\<rparr>"
    by (simp add: handleDrop_def dropBody_def bindE_def)
  show "handleDrop promptId sec index NotJson = Inr \<lparr>calls = [], logged = Some SyntaxError\<rparr>"
    by (simp add: handleDrop_def dropBody_def bindE_def)
  show "handleDrop promptId sec index (JsonText (existingSectionPayload promptId' sec' index'))
       = Inr \<lparr>calls = [], logged = None\<rparr>"
    by (simp add: handleDrop_def dropBody_def bindE_def existingSectionPayload_def)
qed

theorem handleDrop_other_payload_no_mutation_witness:
  "\<not> folderPayloadWithComponents (JObj [(''dragType'', JStr ''folder''), (''folderName'', JStr ''F'')])
   \<and> \<not> componentPayloadWithType (JObj [(''dragType'', JStr ''folder''), (''folderName'', JStr ''F'')])
   \<and> handleDrop ''p1''
        \<lparr>s_id = ''s1'', s_type = ''instruction'', s_name = ''A'', s_content = ''Body'',
         s_open = True, s_linkedComponentId = None, s_originalContent = None, s_dirty = False\<rparr>
        0 (JsonText (JObj [(''dragType'', JStr ''folder''), (''folderName'', JStr ''F'')]))
      = Inr \<lparr>calls = [], logged = None\<rparr>
   \<and> dropOnStore (\<lambda>k. ''new'') ''p1''
        \<lparr>s_id = ''s1'', s_type = ''instruction'', s_name = ''A'', s_content = ''Body'',
         s_open = True, s_linkedComponentId = None, s_originalContent = None, s_dirty = False\<rparr>
        0 (JsonText (JObj [(''dragType'', JStr ''folder''), (''folderName'', JStr ''F'')]))
        (0, [])
      = Some (0, [])"
  using handleDrop_other_payload_no_mutation
    [of "JsonText (JObj [(''dragType'', JStr ''folder''), (''folderName'', JStr ''F'')])" "''p1''"
        "\<lparr>s_id = ''s1'', s_type = ''instruction'', s_name = ''A'', s_content = ''Body'',
         s_open = True, s_linkedComponentId = None, s_originalContent = None, s_dirty = False\<rparr>"
        0 "\<lambda>k. ''new''" "(0, [])"]
  by (simp add: folderPayloadWithComponents_def componentPayloadWithType_def)

subsection \<open>The prompt context on a prompt and a section found once\<close>

lemma inPrompt_absent:
  "promptId \<notin> p_id ` set ps \<Longrightarrow> inPrompt promptId f ps = Some ps"
  by (induction ps) auto

lemma inPrompt_unique:
  assumes "promptId \<notin> p_id ` set front" "promptId \<notin> p_id ` set back" "p_id p = promptId"
  shows "inPrompt promptId f (front @ [p] @ back) =
         map_option (\<lambda>secs. front @ [p\<lparr>p_sections := secs\<rparr>] @ back) (f (p_sections p))"
  using assms(1)
proof (induction front)
  case Nil
  show ?case using assms(2,3) by (cases "f (p_sections p)") (simp_all add: inPrompt_absent)
next
  case (Cons q front)
  then show ?case by (cases "f (p_sections p)") auto
qed

lemma updateSections_absent:
  "sectionId \<notin> s_id ` set secs \<Longrightarrow> updateSections sectionId partialFields secs = Some secs"
  by (induction secs) auto

lemma updateSections_unique:
  assumes "s_id sec \<notin> s_id ` set pre" "s_id sec \<notin> s_id ` set post"
  shows "updateSections (s_id sec) partialFields (pre @ [sec] @ post) =
         map_option (\<lambda>sec'. pre @ [sec'] @ post) (updateOne partialFields sec)"
  using assms(1)
proof (induction pre)
  case Nil
  show ?case using assms(2)
    by (cases "updateOne partialFields sec") (simp_all add: updateSections_absent)
next
  case (Cons q pre)
  then show ?case by (cases "updateOne partialFields sec") auto
qed

lemma map_section_absent:
  "sectionId \<notin> s_id ` set secs \<Longrightarrow>
   map (\<lambda>s. if s_id s = sectionId then f s else s) secs = secs"
  by (induction secs) auto

lemma decodeComponent_componentJson: "decodeComponent (componentJson c) = Some c"
  by (simp add: decodeComponent_def componentJson_def)

subsection \<open>Link synchronisation\<close>

text \<open>
  The lookup yields the first component of the tree, depth first, that has the id.
\<close>

lemma find_append_first:
  "find P (xs @ ys) = (case find P xs of None \<Rightarrow> find P ys | Some x \<Rightarrow> Some x)"
  by (induction xs) simp_all

lemma findComponentById_first:
  "findComponentById nodes ident = find (\<lambda>c. c_id c = ident) (treeComponents nodes)"
proof (induction nodes ident rule: findComponentById.induct)
  case (1 ident)
  show ?case by (simp add: treeComponents_def)
next
  case (2 c nodes ident)
  then show ?case by (simp add: treeComponents_def)
next
  case (3 fid fname children expanded nodes ident)
  then show ?case
    by (simp add: treeComponents_def find_append_first split: option.splits)
qed

lemma find_first:
  "\<forall>x\<in>set xs. \<not> P x \<Longrightarrow> P y \<Longrightarrow> find P (xs @ [y] @ ys) = Some y"
  by (induction xs) simp_all

lemma findComponentById_resolves:
  assumes "treeComponents treeData = earlier @ [c] @ later" "c_id c = linkedId"
    and "linkedId \<notin> c_id ` set earlier"
  shows "findComponentById treeData linkedId = Some c"
  unfolding findComponentById_first assms(1)
proof (rule find_first)
  show "\<forall>x\<in>set earlier. c_id x \<noteq> linkedId" using assms(3) by (auto simp: image_iff)
  show "c_id c = linkedId" by (rule assms(2))
qed

text \<open>
  C2. For every section whose \<open>linkedComponentId\<close> resolves to a component \<open>c\<close> of the
  tree, that is, \<open>c\<close> is a component of the tree, its id is the \<open>linkedComponentId\<close> of the
  section, and no component before it in the tree has that id (ids are unique across the
  tree): if the content, the component type or the name of \<open>c\<close> differs from the
  \<open>originalContent\<close>, the type or the name of the section, the link-sync pass overwrites
  the content, type and name of the section with those of \<open>c\<close>, sets \<open>originalContent\<close> to
  the content of \<open>c\<close> and clears \<open>dirty\<close>, and changes nothing else. The comparison is with
  the \<open>originalContent\<close> snapshot, not with the current content of the section: where the
  snapshot, the type and the name agree with \<open>c\<close>, the pass makes no call, whatever the
  content. The id is one that is not empty, the prompt is found once among the prompts
  and the section once among its sections.
\<close>

theorem linkSync_overwrites_from_component:
  assumes "s_linkedComponentId sec = Some linkedId" "linkedId \<noteq> []"
    and "treeComponents treeData = earlier @ [c] @ later" "c_id c = linkedId"
    and "linkedId \<notin> c_id ` set earlier"
    and "promptId \<notin> p_id ` set front" "promptId \<notin> p_id ` set back" "p_id p = promptId"
    and "p_sections p = pre @ [sec] @ post"
    and "s_id sec \<notin> s_id ` set pre" "s_id sec \<notin> s_id ` set post"
  shows "findComponentById treeData linkedId = Some c
       \<and> (Some (c_content c) \<noteq> s_originalContent sec \<or> c_componentType c \<noteq> s_type sec
            \<or> c_name c \<noteq> s_name sec \<longrightarrow>
          runCalls genId (linkSyncEffect treeData promptId sec) (k, front @ [p] @ back)
            = Some (k, front @ [p\<lparr>p_sections :=
                 pre @ [sec\<lparr>s_content := c_content c, s_type := c_componentType c,
                            s_name := c_name c, s_originalContent := Some (c_content c),
                            s_dirty := False\<rparr>] @ post\<rparr>] @ back))
       \<and> (Some (c_content c) = s_originalContent sec \<and> c_componentType c = s_type sec
            \<and> c_name c = s_name sec \<longrightarrow>
          linkSyncEffect treeData promptId sec = [])"
proof (intro conjI impI)
  show found: "findComponentById treeData linkedId = Some c"
    by (rule findComponentById_resolves[OF assms(3,4,5)])
  {
    assume differs: "Some (c_content c) \<noteq> s_originalContent sec
        \<or> c_componentType c \<noteq> s_type sec \<or> c_name c \<noteq> s_name sec"
    then have eff: "linkSyncEffect treeData promptId sec
        = [UpdateSectionFromLinkedComponent promptId (s_id sec) c]"
      using assms(1,2) found by (auto simp: linkSyncEffect_def)
    have secs: "map (\<lambda>s. if s_id s = s_id sec then syncFromComponent c s else s)
                  (pre @ [sec] @ post)
         = pre @ [syncFromComponent c sec] @ post"
      using assms(10,11) by (simp add: map_section_absent)
    have "updateSectionFromLinkedComponent promptId (s_id sec) c (front @ [p] @ back)
        = Some (front @ [p\<lparr>p_sections := pre @ [syncFromComponent c sec] @ post\<rparr>] @ back)"
      unfolding updateSectionFromLinkedComponent_def
      by (simp only: inPrompt_unique[OF assms(6,7,8)] assms(9) secs) simp
    then show "runCalls genId (linkSyncEffect treeData promptId sec) (k, front @ [p] @ back)
              = Some (k, front @ [p\<lparr>p_sections :=
                   pre @ [sec\<lparr>s_content := c_content c, s_type := c_componentType c,
                              s_name := c_name c, s_originalContent := Some (c_content c),
                              s_dirty := False\<rparr>] @ post\<rparr>] @ back)"
      unfolding eff by (simp add: syncFromComponent_def)
  }
  {
    assume "Some (c_content c) = s_originalContent sec \<and> c_componentType c = s_type sec
              \<and> c_name c = s_name sec"
    then show "linkSyncEffect treeData promptId sec = []"
      using assms(1,2) found by (auto simp: linkSyncEffect_def)
  }
qed

text \<open>
  The case of the specification: a section with content \<open>X\<close>, \<open>originalContent\<close> \<open>X\<close> and
  \<open>dirty\<close> false, linked to a component whose content has become \<open>Y\<close>; the tree has other
  components before and after it.
\<close>

theorem linkSync_overwrites_from_component_witness:
  "treeComponents
     [FolderNode ''f1'' ''Library''
        [ComponentNode \<lparr>c_id = ''c0'', c_name = ''Tone'', c_componentType = ''context'',
                        c_content = ''Z''\<rparr>,
         FolderNode ''f2'' ''Sub''
           [ComponentNode \<lparr>c_id = ''c1'', c_name = ''Intro'', c_componentType = ''instruction'',
                           c_content = ''Y''\<rparr>] False] True,
      ComponentNode \<lparr>c_id = ''c2'', c_name = ''Sample'', c_componentType = ''example'',
                     c_content = ''W''\<rparr>]
     = [\<lparr>c_id = ''c0'', c_name = ''Tone'', c_componentType = ''context'', c_content = ''Z''\<rparr>]
       @ [\<lparr>c_id = ''c1'', c_name = ''Intro'', c_componentType = ''instruction'', c_content = ''Y''\<rparr>]
       @ [\<lparr>c_id = ''c2'', c_name = ''Sample'', c_componentType = ''example'', c_content = ''W''\<rparr>]
   \<and> runCalls (\<lambda>k. ''new'')
       (linkSyncEffect
          [FolderNode ''f1'' ''Library''
             [ComponentNode \<lparr>c_id = ''c0'', c_name = ''Tone'', c_componentType = ''context'',
                             c_content = ''Z''\<rparr>,
              FolderNode ''f2'' ''Sub''
                [ComponentNode \<lparr>c_id = ''c1'', c_name = ''Intro'',
                                c_componentType = ''instruction'', c_content = ''Y''\<rparr>] False] True,
           ComponentNode \<lparr>c_id = ''c2'', c_name = ''Sample'', c_componentType = ''example'',
                          c_content = ''W''\<rparr>]
          ''p1''
          \<lparr>s_id = ''s1'', s_type = ''instruction'', s_name = ''Intro'', s_content = ''X'',
           s_open = True, s_linkedComponentId = Some ''c1'', s_originalContent = Some ''X'',
           s_dirty = False\<rparr>)
       (0, [\<lparr>p_id = ''p1'', p_name = ''P'',
             p_sections = [\<lparr>s_id = ''s1'', s_type = ''instruction'', s_name = ''Intro'',
                            s_content = ''X'', s_open = True, s_linkedComponentId = Some ''c1'',
                            s_originalContent = Some ''X'', s_dirty = False\<rparr>],
             p_variables = []\<rparr>])
     = Some (0, [\<lparr>p_id = ''p1'', p_name = ''P'',
                  p_sections = [\<lparr>s_id = ''s1'', s_type = ''instruction'', s_name = ''Intro'',
                                 s_content = ''Y'', s_open = True,
                                 s_linkedComponentId = Some ''c1'',
                                 s_originalContent = Some ''Y'', s_dirty = False\<rparr>],
                  p_variables = []\<rparr>])"
  using linkSync_overwrites_from_component
    [of "\<lparr>s_id = ''s1'', s_type = ''instruction'', s_name = ''Intro'', s_content = ''X'',
           s_open = True, s_linkedComponentId = Some ''c1'', s_originalContent = Some ''X'',
           s_dirty = False\<rparr>"
        "''c1''"
        "[FolderNode ''f1'' ''Library''
             [ComponentNode \<lparr>c_id = ''c0'', c_name = ''Tone'', c_componentType = ''context'',
                             c_content = ''Z''\<rparr>,
              FolderNode ''f2'' ''Sub''
                [ComponentNode \<lparr>c_id = ''c1'', c_name = ''Intro'',
                                c_componentType = ''instruction'', c_content = ''Y''\<rparr>] False] True,
           ComponentNode \<lparr>c_id = ''c2'', c_name = ''Sample'', c_componentType = ''example'',
                          c_content = ''W''\<rparr>]"
        "[\<lparr>c_id = ''c0'', c_name = ''Tone'', c_componentType = ''context'',
                        c_content = ''Z''\<rparr>]"
        "\<lparr>c_id = ''c1'', c_name = ''Intro'', c_componentType = ''instruction'',
                 c_content = ''Y''\<rparr>"
        "[\<lparr>c_id = ''c2'', c_name = ''Sample'', c_componentType = ''example'',
                      c_content = ''W''\<rparr>]"
        "''p1''" "[]" "[]"
        "\<lparr>p_id = ''p1'', p_name = ''P'',
             p_sections = [\<lparr>s_id = ''s1'', s_type = ''instruction'', s_name = ''Intro'',
                            s_content = ''X'', s_open = True, s_linkedComponentId = Some ''c1'',
                            s_originalContent = Some ''X'', s_dirty = False\<rparr>],
             p_variables = []\<rparr>"
        "[]" "[]" "\<lambda>k. ''new''" 0]
  by (simp add: treeComponents_def)

subsection \<open>The drop of a folder\<close>

lemma run_forEachAdd:
  assumes "promptId \<notin> p_id ` set front" "promptId \<notin> p_id ` set back" "p_id p = promptId"
  shows "index + 1 + idx = length pre \<Longrightarrow>
     runCalls genId (forEachAdd promptId index idx (map componentJson cs))
        (k, front @ [p\<lparr>p_sections := pre @ post\<rparr>] @ back)
     = Some (k + length cs,
             front @ [p\<lparr>p_sections := pre @ newSections genId k cs @ post\<rparr>] @ back)"
proof (induction cs arbitrary: idx k pre)
  case Nil
  show ?case by simp
next
  case (Cons c cs)
  let ?new = "sectionFromComponent (genId k) c"
  have add: "addSectionFromComponent (genId k) promptId (componentJson c) (index + 1 + idx)
               (front @ [p\<lparr>p_sections := pre @ post\<rparr>] @ back)
           = Some (front @ [p\<lparr>p_sections := (pre @ [?new]) @ post\<rparr>] @ back)"
    using inPrompt_unique[OF assms(1,2), of "p\<lparr>p_sections := pre @ post\<rparr>"
        "\<lambda>secs. Some (insertAt (index + 1 + idx) ?new secs)"] assms(3) Cons.prems
    by (simp add: addSectionFromComponent_def decodeComponent_componentJson insertAt_def)
  have next_idx: "index + 1 + Suc idx = length (pre @ [?new])"
    using Cons.prems by simp
  show ?case
    using add Cons.IH[OF next_idx, of "Suc k"] by simp
qed

lemma updateOne_first_component:
  assumes "c_componentType c \<noteq> []"
  shows "updateOne [(''content'', JStr (c_content c)),
                    (''type'', jsOr (JStr (c_componentType c)) (JStr ''instruction'')),
                    (''name'', JStr (c_name c)),
                    (''linkedComponentId'', JStr (c_id c)),
                    (''originalContent'', JStr (c_content c))] sec
       = Some (sec\<lparr>s_content := c_content c, s_type := c_componentType c, s_name := c_name c,
                 s_linkedComponentId := Some (c_id c), s_originalContent := Some (c_content c),
                 s_dirty := False\<rparr>)"
  using assms by (simp add: updateOne_def decodeField_def markDirty_def jsOr_def)

lemma newSections_bound:
  "length (newSections genId k cs) = length cs
   \<and> map s_linkedComponentId (newSections genId k cs) = map (\<lambda>c. Some (c_id c)) cs
   \<and> map s_content (newSections genId k cs) = map c_content cs
   \<and> map s_type (newSections genId k cs) = map c_componentType cs
   \<and> map s_name (newSections genId k cs) = map c_name cs"
  by (induction cs arbitrary: k) (simp_all add: sectionFromComponent_def)

text \<open>The calls \<open>handleDrop\<close> makes on a folder payload with at least one component.\<close>

lemma handleDrop_folderPayload:
  "handleDrop promptId sec index (JsonText (folderPayload folderName (c # cs))) =
     Inr \<lparr>calls = UpdateSection promptId (s_id sec)
                    [(''content'', JStr (c_content c)),
                     (''type'', jsOr (JStr (c_componentType c)) (JStr ''instruction'')),
                     (''name'', JStr (c_name c)),
                     (''linkedComponentId'', JStr (c_id c)),
                     (''originalContent'', JStr (c_content c))]
                  # forEachAdd promptId index 0 (map componentJson cs),
          logged = None\<rparr>"
  by (simp add: handleDrop_def dropBody_def bindE_def folderPayload_def folderDrop_def
      componentJson_def)

text \<open>
  C3. For every folder payload whose components are \<open>c\<close> followed by \<open>cs\<close>, dropped onto the
  section \<open>sec\<close> at position \<open>index\<close> of its prompt: the content, type and name of \<open>sec\<close>
  become those of \<open>c\<close>, its \<open>linkedComponentId\<close> the id of \<open>c\<close> and its \<open>originalContent\<close> the
  content of \<open>c\<close>; one new section per component of \<open>cs\<close>, bound to it, is inserted right
  after \<open>sec\<close>, in the order of the payload; the sections before and after, and the other
  prompts, are as they were. The component type of \<open>c\<close> is a tag that is not empty, the
  prompt is found once among the prompts and the section once among its sections.
\<close>

theorem folder_drop_replaces_and_inserts:
  assumes "c_componentType c \<noteq> []"
    and "promptId \<notin> p_id ` set front" "promptId \<notin> p_id ` set back" "p_id p = promptId"
    and "p_sections p = pre @ [sec] @ post"
    and "s_id sec \<notin> s_id ` set pre" "s_id sec \<notin> s_id ` set post"
    and "index = length pre"
  shows "dropOnStore genId promptId sec index (JsonText (folderPayload folderName (c # cs)))
           (k, front @ [p] @ back)
         = Some (k + length cs,
                 front @ [p\<lparr>p_sections :=
                    pre @ [sec\<lparr>s_content := c_content c, s_type := c_componentType c,
                               s_name := c_name c, s_linkedComponentId := Some (c_id c),
                               s_originalContent := Some (c_content c), s_dirty := False\<rparr>]
                        @ newSections genId k cs @ post\<rparr>] @ back)
       \<and> length (newSections genId k cs) = length cs
       \<and> map s_linkedComponentId (newSections genId k cs) = map (\<lambda>c. Some (c_id c)) cs
       \<and> map s_content (newSections genId k cs) = map c_content cs"
proof (intro conjI)
  let ?sec' = "sec\<lparr>s_content := c_content c, s_type := c_componentType c,
                               s_name := c_name c, s_linkedComponentId := Some (c_id c),
                               s_originalContent := Some (c_content c), s_dirty := False\<rparr>"
  let ?partial = "[(''content'', JStr (c_content c)),
                     (''type'', jsOr (JStr (c_componentType c)) (JStr ''instruction'')),
                     (''name'', JStr (c_name c)),
                     (''linkedComponentId'', JStr (c_id c)),
                     (''originalContent'', JStr (c_content c))]"
  have upd: "updateSection promptId (s_id sec) ?partial (front @ [p] @ back)
      = Some (front @ [p\<lparr>p_sections := (pre @ [?sec']) @ post\<rparr>] @ back)"
    unfolding updateSection_def
    by (simp only: inPrompt_unique[OF assms(2,3,4)] assms(5)
          updateSections_unique[OF assms(6,7)] updateOne_first_component[OF assms(1)])
       simp
  have idx: "index + 1 + 0 = length (pre @ [?sec'])" using assms(8) by simp
  have adds: "runCalls genId (forEachAdd promptId index 0 (map componentJson cs))
        (k, front @ [p\<lparr>p_sections := (pre @ [?sec']) @ post\<rparr>] @ back)
     = Some (k + length cs,
             front @ [p\<lparr>p_sections := (pre @ [?sec']) @ newSections genId k cs @ post\<rparr>] @ back)"
    by (rule run_forEachAdd[OF assms(2,3,4) idx])
  show "dropOnStore genId promptId sec index (JsonText (folderPayload folderName (c # cs)))
           (k, front @ [p] @ back)
         = Some (k + length cs,
                 front @ [p\<lparr>p_sections := pre @ [?sec'] @ newSections genId k cs @ post\<rparr>] @ back)"
    unfolding dropOnStore_def handleDrop_folderPayload
    using upd adds by simp
  show "length (newSections genId k cs) = length cs"
    and "map s_linkedComponentId (newSections genId k cs) = map (\<lambda>c. Some (c_id c)) cs"
    and "map s_content (newSections genId k cs) = map c_content cs"
    by (simp_all add: newSections_bound)
qed

text \<open>
  The case of the specification: a folder with three components dropped onto the second
  of three sections.
\<close>

theorem folder_drop_replaces_and_inserts_witness:
  "dropOnStore (\<lambda>k. if k = 0 then ''n0'' else ''n1'') ''p1''
     \<lparr>s_id = ''s2'', s_type = ''context'', s_name = ''B'', s_content = ''old'', s_open = True,
      s_linkedComponentId = None, s_originalContent = None, s_dirty = False\<rparr>
     1
     (JsonText (folderPayload ''F''
        [\<lparr>c_id = ''c1'', c_name = ''N1'', c_componentType = ''instruction'', c_content = ''X''\<rparr>,
         \<lparr>c_id = ''c2'', c_name = ''N2'', c_componentType = ''context'', c_content = ''Y''\<rparr>,
         \<lparr>c_id = ''c3'', c_name = ''N3'', c_componentType = ''example'', c_content = ''Z''\<rparr>]))
     (0, [\<lparr>p_id = ''p1'', p_name = ''P'',
           p_sections =
             [\<lparr>s_id = ''s1'', s_type = ''context'', s_name = ''A'', s_content = ''a'', s_open = True,
               s_linkedComponentId = None, s_originalContent = None, s_dirty = False\<rparr>,
              \<lparr>s_id = ''s2'', s_type = ''context'', s_name = ''B'', s_content = ''old'', s_open = True,
               s_linkedComponentId = None, s_originalContent = None, s_dirty = False\<rparr>,
              \<lparr>s_id = ''s3'', s_type = ''context'', s_name = ''C'', s_content = ''c'', s_open = True,
               s_linkedComponentId = None, s_originalContent = None, s_dirty = False\<rparr>],
           p_variables = []\<rparr>])
   = Some (2, [\<lparr>p_id = ''p1'', p_name = ''P'',
           p_sections =
             [\<lparr>s_id = ''s1'', s_type = ''context'', s_name = ''A'', s_content = ''a'', s_open = True,
               s_linkedComponentId = None, s_originalContent = None, s_dirty = False\<rparr>,
              \<lparr>s_id = ''s2'', s_type = ''instruction'', s_name = ''N1'', s_content = ''X'',
               s_open = True, s_linkedComponentId = Some ''c1'', s_originalContent = Some ''X'',
               s_dirty = False\<rparr>,
              \<lparr>s_id = ''n0'', s_type = ''context'', s_name = ''N2'', s_content = ''Y'',
               s_open = True, s_linkedComponentId = Some ''c2'', s_originalContent = Some ''Y'',
               s_dirty = False\<rparr>,
              \<lparr>s_id = ''n1'', s_type = ''example'', s_name = ''N3'', s_content = ''Z'',
               s_open = True, s_linkedComponentId = Some ''c3'', s_originalContent = Some ''Z'',
               s_dirty = False\<rparr>,
              \<lparr>s_id = ''s3'', s_type = ''context'', s_name = ''C'', s_content = ''c'', s_open = True,
               s_linkedComponentId = None, s_originalContent = None, s_dirty = False\<rparr>],
           p_variables = []\<rparr>])"
  using folder_drop_replaces_and_inserts
    [of "\<lparr>c_id = ''c1'', c_name = ''N1'', c_componentType = ''instruction'', c_content = ''X''\<rparr>"
        "''p1''" "[]" "[]"
        "\<lparr>p_id = ''p1'', p_name = ''P'',
           p_sections =
             [\<lparr>s_id = ''s1'', s_type = ''context'', s_name = ''A'', s_content = ''a'', s_open = True,
               s_linkedComponentId = None, s_originalContent = None, s_dirty = False\<rparr>,
              \<lparr>s_id = ''s2'', s_type = ''context'', s_name = ''B'', s_content = ''old'', s_open = True,
               s_linkedComponentId = None, s_originalContent = None, s_dirty = False\<rparr>,
              \<lparr>s_id = ''s3'', s_type = ''context'', s_name = ''C'', s_content = ''c'', s_open = True,
               s_linkedComponentId = None, s_originalContent = None, s_dirty = False\<rparr>],
           p_variables = []\<rparr>"
        "[\<lparr>s_id = ''s1'', s_type = ''context'', s_name = ''A'', s_content = ''a'', s_open = True,
               s_linkedComponentId = None, s_originalContent = None, s_dirty = False\<rparr>]"
        "\<lparr>s_id = ''s2'', s_type = ''context'', s_name = ''B'', s_content = ''old'', s_open = True,
               s_linkedComponentId = None, s_originalContent = None, s_dirty = False\<rparr>"
        "[\<lparr>s_id = ''s3'', s_type = ''context'', s_name = ''C'', s_content = ''c'', s_open = True,
               s_linkedComponentId = None, s_originalContent = None, s_dirty = False\<rparr>]"
        1 "\<lambda>k. if k = 0 then ''n0'' else ''n1''" "''F''"
        "[\<lparr>c_id = ''c2'', c_name = ''N2'', c_componentType = ''context'', c_content = ''Y''\<rparr>,
         \<lparr>c_id = ''c3'', c_name = ''N3'', c_componentType = ''example'', c_content = ''Z''\<rparr>]"
        0]
  by (simp add: sectionFromComponent_def)

end
